theory Spec2Isabelle
  imports Complex_Main "HOL-Library.Multiset"
begin

section \<open>Floating-point values\<close>

text \<open>
  A Python float (and a numpy float64) is modelled by the value it denotes: an ordinary
  real number, one of the two infinities, or NaN.  Rounding and overflow of finite
  results are not modelled, and zero carries no sign (division of a non-zero number by
  zero takes the sign of the numerator).  Comparisons follow IEEE 754: every ordered
  comparison with NaN is false.
\<close>

datatype pyfloat = Fin real | PInf | NInf | NaN

fun isna :: "pyfloat \<Rightarrow> bool" where
  "isna NaN = True"
| "isna _ = False"

fun flt :: "pyfloat \<Rightarrow> pyfloat \<Rightarrow> bool" where
  "flt (Fin a) (Fin b) = (a < b)"
| "flt (Fin a) PInf = True"
| "flt NInf (Fin b) = True"
| "flt NInf PInf = True"
| "flt _ _ = False"

fun feq :: "pyfloat \<Rightarrow> pyfloat \<Rightarrow> bool" where
  "feq (Fin a) (Fin b) = (a = b)"
| "feq PInf PInf = True"
| "feq NInf NInf = True"
| "feq _ _ = False"

definition fle :: "pyfloat \<Rightarrow> pyfloat \<Rightarrow> bool" where
  "fle x y = (flt x y \<or> feq x y)"

definition fgt :: "pyfloat \<Rightarrow> pyfloat \<Rightarrow> bool" where
  "fgt x y = flt y x"

definition fge :: "pyfloat \<Rightarrow> pyfloat \<Rightarrow> bool" where
  "fge x y = fle y x"

fun fneg :: "pyfloat \<Rightarrow> pyfloat" where
  "fneg (Fin a) = Fin (- a)"
| "fneg PInf = NInf"
| "fneg NInf = PInf"
| "fneg NaN = NaN"

fun fabs :: "pyfloat \<Rightarrow> pyfloat" where
  "fabs (Fin a) = Fin \<bar>a\<bar>"
| "fabs PInf = PInf"
| "fabs NInf = PInf"
| "fabs NaN = NaN"

fun fadd :: "pyfloat \<Rightarrow> pyfloat \<Rightarrow> pyfloat" where
  "fadd (Fin a) (Fin b) = Fin (a + b)"
| "fadd NaN _ = NaN"
| "fadd _ NaN = NaN"
| "fadd PInf NInf = NaN"
| "fadd NInf PInf = NaN"
| "fadd PInf _ = PInf"
| "fadd _ PInf = PInf"
| "fadd NInf _ = NInf"
| "fadd _ NInf = NInf"

definition fsub :: "pyfloat \<Rightarrow> pyfloat \<Rightarrow> pyfloat" where
  "fsub x y = fadd x (fneg y)"

text \<open>The sign of a value, for the products and quotients that involve an infinity.\<close>

fun fsign :: "pyfloat \<Rightarrow> int" where
  "fsign (Fin a) = (if a < 0 then -1 else if a = 0 then 0 else 1)"
| "fsign PInf = 1"
| "fsign NInf = -1"
| "fsign NaN = 0"

definition inf_of_sign :: "int \<Rightarrow> pyfloat" where
  "inf_of_sign s = (if s = 0 then NaN else if s < 0 then NInf else PInf)"

fun fmul :: "pyfloat \<Rightarrow> pyfloat \<Rightarrow> pyfloat" where
  "fmul (Fin a) (Fin b) = Fin (a * b)"
| "fmul NaN _ = NaN"
| "fmul _ NaN = NaN"
| "fmul x y = inf_of_sign (fsign x * fsign y)"

fun fdiv :: "pyfloat \<Rightarrow> pyfloat \<Rightarrow> pyfloat" where
  "fdiv (Fin a) (Fin b) = (if b = 0 then inf_of_sign (fsign (Fin a)) else Fin (a / b))"
| "fdiv NaN _ = NaN"
| "fdiv _ NaN = NaN"
| "fdiv (Fin a) _ = Fin 0"
| "fdiv x (Fin b) = inf_of_sign (fsign x * (if b < 0 then -1 else 1))"
| "fdiv _ _ = NaN"

text \<open>\<open>np.log\<close>: NaN below zero, minus infinity at zero.\<close>

fun flog :: "pyfloat \<Rightarrow> pyfloat" where
  "flog (Fin a) = (if a < 0 then NaN else if a = 0 then NInf else Fin (ln a))"
| "flog PInf = PInf"
| "flog _ = NaN"

fun fsqrt :: "pyfloat \<Rightarrow> pyfloat" where
  "fsqrt (Fin a) = (if a < 0 then NaN else Fin (sqrt a))"
| "fsqrt PInf = PInf"
| "fsqrt _ = NaN"

section \<open>Configuration\<close>

text \<open>
  The module \<open>config\<close> is imported by every indicator module but is not among the
  sources; the entries of its tables \<open>ALERT_THRESHOLDS\<close> and \<open>CALC_PARAMS\<close> that the
  functions below read are therefore parameters of the model.  Window lengths are
  natural numbers.
\<close>

record config =
  SPREAD_CRITICAL :: real
  SPREAD_DANGER :: real
  SPREAD_WARNING :: real
  DIVERGENCE_THRESHOLD :: real
  VOL_WINDOW :: nat
  RELATIVE_STRENGTH_WINDOW :: nat

section \<open>Alert levels (components/alerts.py)\<close>

datatype AlertLevel = SAFE | INFO | WARNING | DANGER | CRITICAL

text \<open>The value of each member of the enumeration, read backwards: \<open>AlertLevel(s)\<close>.\<close>

definition AlertLevel_of :: "string \<Rightarrow> AlertLevel option" where
  "AlertLevel_of s =
     (if s = ''safe'' then Some SAFE
      else if s = ''info'' then Some INFO
      else if s = ''warning'' then Some WARNING
      else if s = ''danger'' then Some DANGER
      else if s = ''critical'' then Some CRITICAL
      else None)"

fun LEVEL_PRIORITY :: "AlertLevel \<Rightarrow> nat" where
  "LEVEL_PRIORITY CRITICAL = 0"
| "LEVEL_PRIORITY DANGER = 1"
| "LEVEL_PRIORITY WARNING = 2"
| "LEVEL_PRIORITY INFO = 3"
| "LEVEL_PRIORITY SAFE = 4"

section \<open>Spread alert (indicators/spread.py)\<close>

text \<open>
  \<open>_to_scalar\<close> unwraps a numpy scalar or a one-element series and applies \<open>float\<close>
  otherwise; on a value that is already a float it is the identity.
\<close>

definition to_scalar :: "pyfloat \<Rightarrow> pyfloat" where
  "to_scalar val = val"

definition check_spread_alert :: "config \<Rightarrow> pyfloat \<Rightarrow> string \<times> string" where
  "check_spread_alert cfg current_spread0 =
     (let current_spread = to_scalar current_spread0 in
      if fle current_spread (Fin (SPREAD_CRITICAL cfg)) then (''critical'', ''#9C27B0'')
      else if fle current_spread (Fin (SPREAD_DANGER cfg)) then (''danger'', ''#FF1744'')
      else if fle current_spread (Fin (SPREAD_WARNING cfg)) then (''warning'', ''#FFD600'')
      else (''safe'', ''#00C853''))"

text \<open>The severity rank of a level string; smaller is more severe, as in \<open>LEVEL_PRIORITY\<close>.\<close>

definition level_priority :: "string \<Rightarrow> nat option" where
  "level_priority s = map_option LEVEL_PRIORITY (AlertLevel_of s)"

section \<open>Series and data frames\<close>

text \<open>
  A pandas \<open>Series\<close> is the list of its (label, value) entries in row order, a
  \<open>DataFrame\<close> its index together with its named columns, every column as long as the
  index.  Labels are dates, here day numbers.  The empty \<open>pd.Series()\<close> is the empty
  list.
\<close>

type_synonym date = int
type_synonym series = "(date \<times> pyfloat) list"

record dataframe =
  df_index :: "date list"
  df_columns :: "(string \<times> pyfloat list) list"

datatype py_error = IndexError

text \<open>\<open>df.empty\<close>: some axis has length zero.\<close>

definition df_empty :: "dataframe \<Rightarrow> bool" where
  "df_empty df = (df_index df = [] \<or> df_columns df = [])"

text \<open>\<open>df[c]\<close>, with \<open>None\<close> when \<open>c not in df.columns\<close>.\<close>

definition column :: "dataframe \<Rightarrow> string \<Rightarrow> series option" where
  "column df c = map_option (zip (df_index df)) (map_of (df_columns df) c)"

text \<open>
  \<open>df['Close'] if 'Close' in df.columns else df.iloc[:, 0]\<close>.  On a frame without any
  column \<open>iloc[:, 0]\<close> raises; such a frame is \<open>empty\<close>, every caller tests that first,
  and the model gives the empty series there.
\<close>

definition close_of :: "dataframe \<Rightarrow> series" where
  "close_of df =
     (case column df ''Close'' of
        Some s \<Rightarrow> s
      | None \<Rightarrow> (case df_columns df of [] \<Rightarrow> [] | (n, vs) # _ \<Rightarrow> zip (df_index df) vs))"

definition dropna :: "series \<Rightarrow> series" where
  "dropna s = filter (\<lambda>(d, v). \<not> isna v) s"

text \<open>\<open>s.tail(n)\<close> for \<open>n \<ge> 0\<close>: the last \<open>n\<close> entries, all of them when there are fewer.\<close>

definition tail :: "nat \<Rightarrow> 'a list \<Rightarrow> 'a list" where
  "tail n s = drop (length s - n) s"

text \<open>\<open>s.iloc[-k]\<close> for \<open>1 \<le> k \<le> len(s)\<close>; each use below is under such a guard.\<close>

definition iloc_back :: "'a list \<Rightarrow> nat \<Rightarrow> 'a" where
  "iloc_back s k = s ! (length s - k)"

definition fsum :: "pyfloat list \<Rightarrow> pyfloat" where
  "fsum vs = foldl fadd (Fin 0) vs"

definition notna_values :: "pyfloat list \<Rightarrow> pyfloat list" where
  "notna_values vs = filter (\<lambda>v. \<not> isna v) vs"

text \<open>\<open>Series.mean()\<close>, which skips NaN and is NaN when nothing is left.\<close>

definition nanmean :: "pyfloat list \<Rightarrow> pyfloat" where
  "nanmean vs =
     (let ys = notna_values vs in
      if ys = [] then NaN else fdiv (fsum ys) (Fin (real (length ys))))"

text \<open>\<open>Series.var(ddof)\<close>: NaN unless more than \<open>ddof\<close> values are left after skipping NaN.\<close>

definition nanvar :: "nat \<Rightarrow> pyfloat list \<Rightarrow> pyfloat" where
  "nanvar ddof vs =
     (let ys = notna_values vs; n = length ys in
      if n \<le> ddof then NaN
      else let avg = fdiv (fsum ys) (Fin (real n)) in
        fdiv (fsum (map (\<lambda>y. fmul (fsub avg y) (fsub avg y)) ys)) (Fin (real (n - ddof))))"

definition nanstd :: "pyfloat list \<Rightarrow> pyfloat" where
  "nanstd vs = fsqrt (nanvar 1 vs)"

definition nanmin :: "pyfloat list \<Rightarrow> pyfloat" where
  "nanmin vs =
     (case notna_values vs of [] \<Rightarrow> NaN
      | y # ys \<Rightarrow> foldl (\<lambda>m v. if flt v m then v else m) y ys)"

definition nanmax :: "pyfloat list \<Rightarrow> pyfloat" where
  "nanmax vs =
     (case notna_values vs of [] \<Rightarrow> NaN
      | y # ys \<Rightarrow> foldl (\<lambda>m v. if flt m v then v else m) y ys)"

section \<open>Spread statistics and velocity (indicators/spread.py)\<close>

text \<open>A statistics dictionary: keys to floats; \<open>{}\<close> is the empty map.\<close>

type_synonym stats = "string \<rightharpoonup> pyfloat"

definition dict_get :: "stats \<Rightarrow> string \<Rightarrow> pyfloat \<Rightarrow> pyfloat" where
  "dict_get d k dflt = (case d k of None \<Rightarrow> dflt | Some v \<Rightarrow> v)"

definition get_spread_statistics :: "dataframe \<Rightarrow> stats" where
  "get_spread_statistics spread_df =
     (if df_empty spread_df then Map.empty
      else case column spread_df ''Spread'' of
        None \<Rightarrow> Map.empty
      | Some col \<Rightarrow>
          let spread = map snd (dropna col) in
          if length spread = 0 then Map.empty
          else
            let current_spread = to_scalar (last spread) in
            map_of
              [(''current'', current_spread),
               (''mean'', to_scalar (nanmean spread)),
               (''std'', to_scalar (nanstd spread)),
               (''min'', to_scalar (nanmin spread)),
               (''max'', to_scalar (nanmax spread)),
               (''percentile'',
                  to_scalar (Fin (real (length (filter (\<lambda>v. flt v current_spread) spread))
                                  / real (length spread) * 100))),
               (''change_1d'',
                  if length spread > 1
                  then to_scalar (fsub (iloc_back spread 1) (iloc_back spread 2)) else Fin 0),
               (''change_5d'',
                  if length spread > 5
                  then to_scalar (fsub (iloc_back spread 1) (iloc_back spread 5)) else Fin 0),
               (''change_20d'',
                  if length spread > 20
                  then to_scalar (fsub (iloc_back spread 1) (iloc_back spread 20)) else Fin 0)])"

text \<open>
  With \<open>window = 0\<close> the test \<open>len(spread) < window\<close> fails, \<open>tail(0)\<close> is empty and
  \<open>recent.iloc[-1]\<close> raises IndexError.
\<close>

definition calculate_spread_velocity :: "dataframe \<Rightarrow> nat \<Rightarrow> py_error + pyfloat" where
  "calculate_spread_velocity spread_df window =
     (if df_empty spread_df then Inr (Fin 0)
      else case column spread_df ''Spread'' of
        None \<Rightarrow> Inr (Fin 0)
      | Some col \<Rightarrow>
          let spread = map snd (dropna col) in
          if length spread < window then Inr (Fin 0)
          else
            let recent = tail window spread in
            if recent = [] then Inl IndexError
            else Inr (fdiv (fsub (last recent) (hd recent)) (Fin (real window))))"

definition is_spread_accelerating :: "dataframe \<Rightarrow> py_error + bool" where
  "is_spread_accelerating spread_df =
     (case calculate_spread_velocity spread_df 5 of
        Inl e \<Rightarrow> Inl e
      | Inr velocity_5d \<Rightarrow>
          (case calculate_spread_velocity spread_df 20 of
             Inl e \<Rightarrow> Inl e
           | Inr velocity_20d \<Rightarrow>
               Inr (flt velocity_5d velocity_20d \<and> flt velocity_5d (Fin 0))))"

section \<open>Composite risk score (components/alerts.py)\<close>

text \<open>
  The result dictionary of \<open>detect_divergence\<close>, which always carries all five keys.
  A detail entry keeps the ticker, its relative strength and its return; the
  \<open>message\<close> entry is a formatted rendering of the first two and is left out.
\<close>

record divergence_detail =
  detail_ticker :: string
  detail_relative_strength :: pyfloat
  detail_asset_return :: pyfloat

record divergence_result =
  divergence_detected :: bool
  divergence_score :: pyfloat
  details :: "divergence_detail list"
  benchmark_performance :: pyfloat
  high_beta_performance :: "(string \<times> pyfloat) list"

text \<open>The factor strings, as their UTF-8 bytes.\<close>

definition factor_spread_40 :: string where
  "factor_spread_40 = [CHR 0xE5, CHR 0x88, CHR 0xA9, CHR 0xE5, CHR 0xB7, CHR 0xAE, CHR 0xE6,
     CHR 0x9E, CHR 0x81, CHR 0xE5, CHR 0xBA, CHR 0xA6, CHR 0xE6, CHR 0x94, CHR 0xB6, CHR 0xE7,
     CHR 0xAA, CHR 0x84]"

definition factor_spread_30 :: string where
  "factor_spread_30 = [CHR 0xE5, CHR 0x88, CHR 0xA9, CHR 0xE5, CHR 0xB7, CHR 0xAE, CHR 0xE5,
     CHR 0x8D, CHR 0xB1, CHR 0xE9, CHR 0x99, CHR 0xA9, CHR 0xE6, CHR 0x94, CHR 0xB6, CHR 0xE7,
     CHR 0xAA, CHR 0x84]"

definition factor_spread_20 :: string where
  "factor_spread_20 = [CHR 0xE5, CHR 0x88, CHR 0xA9, CHR 0xE5, CHR 0xB7, CHR 0xAE, CHR 0xE6,
     CHR 0x94, CHR 0xB6, CHR 0xE7, CHR 0xAA, CHR 0x84, CHR 0xE8, CHR 0x87, CHR 0xB3, CHR 0xE8,
     CHR 0xAD, CHR 0xA6, CHR 0xE6, CHR 0x88, CHR 0x92, CHR 0xE7, CHR 0xBA, CHR 0xBF]"

definition factor_spread_10 :: string where
  "factor_spread_10 = [CHR 0xE5, CHR 0x88, CHR 0xA9, CHR 0xE5, CHR 0xB7, CHR 0xAE, CHR 0xE5,
     CHR 0xA4, CHR 0x84, CHR 0xE4, CHR 0xBA, CHR 0x8E, CHR 0xE8, CHR 0xBE, CHR 0x83, CHR 0xE4,
     CHR 0xBD, CHR 0x8E, CHR 0xE6, CHR 0xB0, CHR 0xB4, CHR 0xE5, CHR 0xB9, CHR 0xB3]"

definition factor_vol_30 :: string where
  "factor_vol_30 = [CHR 0xE6, CHR 0xB3, CHR 0xA2, CHR 0xE5, CHR 0x8A, CHR 0xA8, CHR 0xE7,
     CHR 0x8E, CHR 0x87, CHR 0xE5, CHR 0xA4, CHR 0x84, CHR 0xE4, CHR 0xBA, CHR 0x8E, CHR 0xE6,
     CHR 0x9E, CHR 0x81, CHR 0xE7, CHR 0xAB, CHR 0xAF, CHR 0xE6, CHR 0xB0, CHR 0xB4, CHR 0xE5,
     CHR 0xB9, CHR 0xB3]"

definition factor_vol_20 :: string where
  "factor_vol_20 = [CHR 0xE6, CHR 0xB3, CHR 0xA2, CHR 0xE5, CHR 0x8A, CHR 0xA8, CHR 0xE7,
     CHR 0x8E, CHR 0x87, CHR 0xE5, CHR 0x81, CHR 0x8F, CHR 0xE9, CHR 0xAB, CHR 0x98]"

definition factor_vol_10 :: string where
  "factor_vol_10 = [CHR 0xE6, CHR 0xB3, CHR 0xA2, CHR 0xE5, CHR 0x8A, CHR 0xA8, CHR 0xE7,
     CHR 0x8E, CHR 0x87, CHR 0xE6, CHR 0x9C, CHR 0x89, CHR 0xE6, CHR 0x89, CHR 0x80, CHR 0xE4,
     CHR 0xB8, CHR 0x8A, CHR 0xE5, CHR 0x8D, CHR 0x87]"

definition factor_div_30 :: string where
  "factor_div_30 = [CHR 0xE4, CHR 0xB8, CHR 0xA5, CHR 0xE9, CHR 0x87, CHR 0x8D, CHR 0xE8,
     CHR 0xB5, CHR 0x84, CHR 0xE4, CHR 0xBA, CHR 0xA7, CHR 0xE8, CHR 0x83, CHR 0x8C, CHR 0xE7,
     CHR 0xA6, CHR 0xBB]"

definition factor_div_20 :: string where
  "factor_div_20 = [CHR 0xE6, CHR 0x98, CHR 0x8E, CHR 0xE6, CHR 0x98, CHR 0xBE, CHR 0xE8,
     CHR 0xB5, CHR 0x84, CHR 0xE4, CHR 0xBA, CHR 0xA7, CHR 0xE8, CHR 0x83, CHR 0x8C, CHR 0xE7,
     CHR 0xA6, CHR 0xBB]"

definition factor_div_10 :: string where
  "factor_div_10 = [CHR 0xE8, CHR 0xBD, CHR 0xBB, CHR 0xE5, CHR 0xBE, CHR 0xAE, CHR 0xE8,
     CHR 0xB5, CHR 0x84, CHR 0xE4, CHR 0xBA, CHR 0xA7, CHR 0xE8, CHR 0x83, CHR 0x8C, CHR 0xE7,
     CHR 0xA6, CHR 0xBB]"

text \<open>
  The three blocks of \<open>calculate_composite_risk_score\<close>, each taking the running
  \<open>(score, factors)\<close> and returning it updated, in the order of the source.
\<close>

definition score_spread :: "stats \<Rightarrow> real \<times> string list \<Rightarrow> real \<times> string list" where
  "score_spread spread_stats sf =
     (let (score, factors) = sf; spread = dict_get spread_stats ''current'' (Fin 5.0) in
      if fle spread (Fin 1.5) then (score + 40, factors @ [factor_spread_40])
      else if fle spread (Fin 2.0) then (score + 30, factors @ [factor_spread_30])
      else if fle spread (Fin 2.5) then (score + 20, factors @ [factor_spread_20])
      else if fle spread (Fin 3.0) then (score + 10, factors @ [factor_spread_10])
      else (score, factors))"

definition score_volatility :: "stats \<Rightarrow> real \<times> string list \<Rightarrow> real \<times> string list" where
  "score_volatility vol_stats sf =
     (let (score, factors) = sf; hv_percentile = dict_get vol_stats ''hv_percentile'' (Fin 50) in
      if fge hv_percentile (Fin 95) then (score + 30, factors @ [factor_vol_30])
      else if fge hv_percentile (Fin 80) then (score + 20, factors @ [factor_vol_20])
      else if fge hv_percentile (Fin 60) then (score + 10, factors @ [factor_vol_10])
      else (score, factors))"

definition score_divergence ::
    "divergence_result \<Rightarrow> real \<times> string list \<Rightarrow> real \<times> string list" where
  "score_divergence divergence_result sf =
     (let (score, factors) = sf in
      if divergence_detected divergence_result then
        let div_score = fabs (divergence_score divergence_result) in
        if fgt div_score (Fin 20) then (score + 30, factors @ [factor_div_30])
        else if fgt div_score (Fin 10) then (score + 20, factors @ [factor_div_20])
        else (score + 10, factors @ [factor_div_10])
      else (score, factors))"

definition calculate_composite_risk_score ::
    "stats \<Rightarrow> stats \<Rightarrow> divergence_result \<Rightarrow> real \<times> string list" where
  "calculate_composite_risk_score spread_stats vol_stats divergence_result =
     score_divergence divergence_result
       (score_volatility vol_stats
         (score_spread spread_stats (0, [])))"

text \<open>
  The band contributions as the specification words them, for comparison with the
  function above.
\<close>

definition spread_band :: "pyfloat \<Rightarrow> real" where
  "spread_band s =
     (if fle s (Fin 1.5) then 40 else if fle s (Fin 2.0) then 30
      else if fle s (Fin 2.5) then 20 else if fle s (Fin 3.0) then 10 else 0)"

definition volatility_band :: "pyfloat \<Rightarrow> real" where
  "volatility_band p =
     (if fge p (Fin 95) then 30 else if fge p (Fin 80) then 20
      else if fge p (Fin 60) then 10 else 0)"

definition divergence_band :: "bool \<Rightarrow> pyfloat \<Rightarrow> real" where
  "divergence_band detected sc =
     (if detected
      then (if fgt (fabs sc) (Fin 20) then 30 else if fgt (fabs sc) (Fin 10) then 20 else 10)
      else 0)"

text \<open>A concrete configuration, used as an input in the examples below.\<close>

definition cfg0 :: config where
  "cfg0 = \<lparr>SPREAD_CRITICAL = 1.5, SPREAD_DANGER = 2.0, SPREAD_WARNING = 2.5,
           DIVERGENCE_THRESHOLD = -0.05, VOL_WINDOW = 20, RELATIVE_STRENGTH_WINDOW = 20\<rparr>"

text \<open>A frame with the single column \<open>c\<close> over the days \<open>0, 1, ...\<close>.\<close>

definition frame_of :: "string \<Rightarrow> real list \<Rightarrow> dataframe" where
  "frame_of c vs = \<lparr>df_index = map int [0..<length vs], df_columns = [(c, map Fin vs)]\<rparr>"

text \<open>Inputs for the examples below.\<close>

definition div_ex :: divergence_result where
  "div_ex = \<lparr>divergence_detected = True, divergence_score = Fin (-25), details = [],
     benchmark_performance = Fin 0, high_beta_performance = []\<rparr>"

definition spread_ex :: dataframe where
  "spread_ex = frame_of ''Spread''
     [1, 2, 3, 4, 5, 6, 7, 8, 9, 10, 11, 12, 13, 14, 15, 20, 19, 18, 17, 16]"

text \<open>A strictly decreasing run of values: each entry is below the one before it.\<close>

definition strictly_decreasing :: "pyfloat list \<Rightarrow> bool" where
  "strictly_decreasing vs = successively (\<lambda>a b. flt b a) vs"

section \<open>Historical volatility (indicators/volatility.py)\<close>

text \<open>\<open>s.shift(k)\<close> for \<open>k \<ge> 0\<close>: the values move down by \<open>k\<close> rows, NaN fills the top.\<close>

definition shift :: "nat \<Rightarrow> pyfloat list \<Rightarrow> pyfloat list" where
  "shift k vs = take (length vs) (replicate k NaN @ vs)"

text \<open>
  \<open>s.rolling(window=w).std()\<close>.  The window at row \<open>i\<close> holds the last \<open>w\<close> values up to
  and including row \<open>i\<close>; pandas first turns infinite entries into NaN, and the result is
  NaN unless the window holds at least \<open>min_periods = w\<close> values that are not NaN and more
  than \<open>ddof = 1\<close> of them.  Otherwise it is the square root of their sample variance.
\<close>

definition inf_to_nan :: "pyfloat \<Rightarrow> pyfloat" where
  "inf_to_nan v = (case v of PInf \<Rightarrow> NaN | NInf \<Rightarrow> NaN | _ \<Rightarrow> v)"

definition rolling_window :: "nat \<Rightarrow> pyfloat list \<Rightarrow> nat \<Rightarrow> pyfloat list" where
  "rolling_window w vs i = notna_values (map inf_to_nan (tail w (take (Suc i) vs)))"

definition rolling_std :: "nat \<Rightarrow> pyfloat list \<Rightarrow> pyfloat list" where
  "rolling_std w vs =
     map (\<lambda>i. let win = rolling_window w vs i in
               if w \<le> length win then nanstd win else NaN)
         [0..<length vs]"

text \<open>\<open>np.log(close / close.shift(1))\<close>\<close>

definition log_returns_of :: "pyfloat list \<Rightarrow> pyfloat list" where
  "log_returns_of close = map2 (\<lambda>c p. flog (fdiv c p)) close (shift 1 close)"

definition calculate_historical_volatility ::
    "config \<Rightarrow> dataframe \<Rightarrow> nat option \<Rightarrow> series" where
  "calculate_historical_volatility cfg prices window0 =
     (let window = (case window0 of None \<Rightarrow> VOL_WINDOW cfg | Some w \<Rightarrow> w) in
      if df_empty prices then []
      else
        let close = close_of prices;
            log_returns = log_returns_of (map snd close);
            volatility = map (\<lambda>s. fmul (fmul s (Fin (sqrt 252))) (Fin 100))
                             (rolling_std window log_returns)
        in zip (map fst close) volatility)"

definition is_volatility_spiking :: "config \<Rightarrow> dataframe \<Rightarrow> bool" where
  "is_volatility_spiking cfg prices =
     (let hv = map snd (calculate_historical_volatility cfg prices None) in
      if length hv < 20 then False
      else
        let recent_5d = nanmean (tail 5 hv);
            recent_20d = nanmean (tail 20 hv)
        in fgt recent_5d (fmul recent_20d (Fin 1.5)))"

text \<open>A value that is NaN or at least zero.\<close>

definition nonneg_or_nan :: "pyfloat \<Rightarrow> bool" where
  "nonneg_or_nan x = (isna x \<or> fge x (Fin 0))"

definition flat3 :: dataframe where
  "flat3 = frame_of ''Close'' [1, 1, 1]"

definition jump2 :: dataframe where
  "jump2 = frame_of ''Close'' [100, 300]"

section \<open>Relative strength and divergence (indicators/divergence.py)\<close>

text \<open>
  \<open>a.intersection(b)\<close> on two indexes: the labels of \<open>a\<close> that occur in \<open>b\<close>, each once,
  in the order of \<open>a\<close>.
\<close>

fun unique_first :: "'a list \<Rightarrow> 'a list" where
  "unique_first [] = []"
| "unique_first (x # xs) = x # filter (\<lambda>y. y \<noteq> x) (unique_first xs)"

definition index_intersection :: "date list \<Rightarrow> date list \<Rightarrow> date list" where
  "index_intersection a b = unique_first (filter (\<lambda>d. d \<in> set b) a)"

text \<open>\<open>s.loc[idx]\<close>: the rows of \<open>s\<close> for each label of \<open>idx\<close> in turn.\<close>

definition loc :: "series \<Rightarrow> date list \<Rightarrow> series" where
  "loc s idx = concat (map (\<lambda>d. filter (\<lambda>(d', v). d' = d) s) idx)"

text \<open>
  \<open>s.pct_change(k)\<close> as in pandas 2: NaN entries are first filled with the last value
  before them, then each value is divided by the one \<open>k\<close> rows earlier, minus one.
\<close>

fun ffill_from :: "pyfloat \<Rightarrow> pyfloat list \<Rightarrow> pyfloat list" where
  "ffill_from prev [] = []"
| "ffill_from prev (v # vs) =
     (if isna v then prev # ffill_from prev vs else v # ffill_from v vs)"

definition ffill :: "pyfloat list \<Rightarrow> pyfloat list" where
  "ffill vs = ffill_from NaN vs"

definition pct_change_values :: "nat \<Rightarrow> pyfloat list \<Rightarrow> pyfloat list" where
  "pct_change_values k vs =
     (let filled = ffill vs in
      map2 (\<lambda>x p. fsub (fdiv x p) (Fin 1)) filled (shift k filled))"

definition pct_change :: "nat \<Rightarrow> series \<Rightarrow> series" where
  "pct_change k s = zip (map fst s) (pct_change_values k (map snd s))"

text \<open>
  The two return series below carry the same labels (both come from \<open>loc[common_idx]\<close>),
  so their difference is taken row by row.
\<close>

definition calculate_relative_strength ::
    "config \<Rightarrow> dataframe \<Rightarrow> dataframe \<Rightarrow> nat option \<Rightarrow> series" where
  "calculate_relative_strength cfg asset benchmark window0 =
     (let window = (case window0 of None \<Rightarrow> RELATIVE_STRENGTH_WINDOW cfg | Some w \<Rightarrow> w) in
      if df_empty asset \<or> df_empty benchmark then []
      else
        let asset_close0 = close_of asset;
            bench_close0 = close_of benchmark;
            common_idx = index_intersection (map fst asset_close0) (map fst bench_close0);
            asset_close = loc asset_close0 common_idx;
            bench_close = loc bench_close0 common_idx;
            asset_returns = pct_change window asset_close;
            bench_returns = pct_change window bench_close
        in zip (map fst asset_returns)
             (map2 (\<lambda>a b. fmul (fsub a b) (Fin 100))
                (map snd asset_returns) (map snd bench_returns)))"

text \<open>
  \<open>(close.iloc[-1] / close.iloc[-window] - 1) * 100 if len(close) > window else 0\<close>.
  For \<open>window = 0\<close> the index \<open>-0\<close> is the first row.
\<close>

definition window_return :: "pyfloat list \<Rightarrow> nat \<Rightarrow> pyfloat" where
  "window_return close window =
     (if length close > window
      then to_scalar
             (fmul (fsub (fdiv (last close)
                               (if window = 0 then close ! 0 else iloc_back close window))
                         (Fin 1))
                   (Fin 100))
      else Fin 0)"

text \<open>\<open>rs.iloc[-1]\<close> with NaN replaced by 0; used where \<open>len(rs) > 0\<close>.\<close>

definition current_rs_of :: "series \<Rightarrow> pyfloat" where
  "current_rs_of rs = (if \<not> isna (snd (last rs)) then to_scalar (snd (last rs)) else Fin 0)"

text \<open>\<open>np.mean\<close> of a non-empty list of floats.\<close>

definition np_mean :: "pyfloat list \<Rightarrow> pyfloat" where
  "np_mean vs = fdiv (fsum vs) (Fin (real (length vs)))"

text \<open>
  A dictionary from tickers to frames is the list of its items in insertion order.
  The loop state of \<open>detect_divergence\<close> is the list \<open>divergence_scores\<close> and the
  result dictionary under construction.
\<close>

definition divergence_step ::
    "config \<Rightarrow> dataframe \<Rightarrow> nat \<Rightarrow> pyfloat \<Rightarrow> pyfloat list \<times> divergence_result
       \<Rightarrow> string \<times> dataframe \<Rightarrow> pyfloat list \<times> divergence_result" where
  "divergence_step cfg benchmark window bench_return st item =
     (let (divergence_scores, results) = st; (ticker, asset_df) = item in
      if df_empty asset_df then st
      else
        let rs = calculate_relative_strength cfg asset_df benchmark (Some window) in
        if length rs = 0 then st
        else
          let current_rs = current_rs_of rs;
              asset_return = window_return (map snd (close_of asset_df)) window;
              results1 = results\<lparr>high_beta_performance :=
                           high_beta_performance results @ [(ticker, asset_return)]\<rparr>
          in if fge bench_return (Fin (-2))
                \<and> flt current_rs (Fin (DIVERGENCE_THRESHOLD cfg * 100))
             then (divergence_scores @ [current_rs],
                   results1\<lparr>details := details results1 @
                      [\<lparr>detail_ticker = ticker, detail_relative_strength = current_rs,
                        detail_asset_return = asset_return\<rparr>]\<rparr>)
             else (divergence_scores, results1))"

definition detect_divergence ::
    "config \<Rightarrow> (string \<times> dataframe) list \<Rightarrow> dataframe \<Rightarrow> nat option \<Rightarrow> divergence_result" where
  "detect_divergence cfg high_beta_assets benchmark window0 =
     (let window = (case window0 of None \<Rightarrow> RELATIVE_STRENGTH_WINDOW cfg | Some w \<Rightarrow> w);
          results = \<lparr>divergence_detected = False, divergence_score = Fin 0, details = [],
                     benchmark_performance = Fin 0, high_beta_performance = []\<rparr>
      in if df_empty benchmark then results
         else
           let bench_return = window_return (map snd (close_of benchmark)) window;
               results1 = results\<lparr>benchmark_performance := bench_return\<rparr>;
               (divergence_scores, results2) =
                  foldl (divergence_step cfg benchmark window bench_return)
                        ([], results1) high_beta_assets
           in if divergence_scores \<noteq> []
              then results2\<lparr>divergence_score := to_scalar (np_mean divergence_scores),
                             divergence_detected := True\<rparr>
              else results2)"

text \<open>
  The relative-strength values of the flagged assets, as the specification words it: an
  asset is flagged when the benchmark return is at least -2 and its current relative
  strength is below the threshold times 100.
\<close>

definition flagged_strengths ::
    "config \<Rightarrow> (string \<times> dataframe) list \<Rightarrow> dataframe \<Rightarrow> nat \<Rightarrow> pyfloat list" where
  "flagged_strengths cfg assets benchmark window =
     map (\<lambda>(t, a). current_rs_of (calculate_relative_strength cfg a benchmark (Some window)))
       (filter (\<lambda>(t, a). \<not> df_empty a
                  \<and> calculate_relative_strength cfg a benchmark (Some window) \<noteq> []
                  \<and> fge (window_return (map snd (close_of benchmark)) window) (Fin (-2))
                  \<and> flt (current_rs_of (calculate_relative_strength cfg a benchmark (Some window)))
                        (Fin (DIVERGENCE_THRESHOLD cfg * 100)))
          assets)"

section \<open>Beta and liquidity retreat (indicators/divergence.py)\<close>






record asset_metric =
  ticker :: string
  beta :: pyfloat
  relative_strength_5d :: pyfloat










text \<open>
  Inputs for the examples: three rising prices; a benchmark that alternates between 100
  and 110 over 21 days; and three assets whose daily returns are 2, 3 and 1/2 times
  the benchmark's.
\<close>

definition up3 :: dataframe where
  "up3 = frame_of ''Close'' [100, 110, 121]"

definition bench21 :: dataframe where
  "bench21 = frame_of ''Close''
     [100,
      110,
      100,
      110,
      100,
      110,
      100,
      110,
      100,
      110,
      100,
      110,
      100,
      110,
      100,
      110,
      100,
      110,
      100,
      110,
      100]"

definition double21 :: dataframe where
  "double21 = frame_of ''Close''
     [100,
      120,
      1080 / 11,
      1296 / 11,
      11664 / 121,
      69984 / 605,
      629856 / 6655,
      3779136 / 33275,
      34012224 / 366025,
      204073344 / 1830125,
      1836660096 / 20131375,
      11019960576 / 100656875,
      99179645184 / 1107225625,
      595077871104 / 5536128125,
      5355700839936 / 60897409375,
      32134205039616 / 304487046875,
      289207845356544 / 3349357515625,
      1735247072139264 / 16746787578125,
      15617223649253376 / 184214663359375,
      93703341895520256 / 921073316796875,
      843330077059682304 / 10131806484765625]"

definition triple21 :: dataframe where
  "triple21 = frame_of ''Close''
     [100,
      130,
      1040 / 11,
      1352 / 11,
      10816 / 121,
      70304 / 605,
      562432 / 6655,
      3655808 / 33275,
      29246464 / 366025,
      190102016 / 1830125,
      1520816128 / 20131375,
      9885304832 / 100656875,
      79082438656 / 1107225625,
      514035851264 / 5536128125,
      4112286810112 / 60897409375,
      26729864265728 / 304487046875,
      213838914125824 / 3349357515625,
      1389952941817856 / 16746787578125,
      11119623534542848 / 184214663359375,
      72277552974528512 / 921073316796875,
      578220423796228096 / 10131806484765625]"

definition half21 :: dataframe where
  "half21 = frame_of ''Close''
     [100,
      105,
      2205 / 22,
      9261 / 88,
      194481 / 1936,
      4084101 / 38720,
      85766121 / 851840,
      1801088541 / 17036800,
      37822859361 / 374809600,
      794280046581 / 7496192000,
      16679880978201 / 164916224000,
      350277500542221 / 3298324480000,
      7355827511386641 / 72563138560000,
      154472377739119461 / 1451262771200000,
      3243919932521508681 / 31927780966400000,
      68122318582951682301 / 638555619328000000,
      1430568690241985328321 / 14048223625216000000,
      30041942495081691894741 / 280964472504320000000,
      630880792396715529789561 / 6181218395095040000000,
      13248496640331026125580781 / 123624367901900800000000,
      278218429446951548637196401 / 2719736093841817600000000]"

definition retreat_assets :: "(string \<times> dataframe) list" where
  "retreat_assets = [(''X2'', double21), (''H'', half21), (''X3'', triple21)]"




text \<open>Auxiliary predicates of the proofs.\<close>

definition flagged_item :: "config \<Rightarrow> dataframe \<Rightarrow> nat \<Rightarrow> string \<times> dataframe \<Rightarrow> bool" where
  "flagged_item cfg benchmark window item =
     (\<not> df_empty (snd item)
      \<and> calculate_relative_strength cfg (snd item) benchmark (Some window) \<noteq> []
      \<and> fge (window_return (map snd (close_of benchmark)) window) (Fin (-2))
      \<and> flt (current_rs_of (calculate_relative_strength cfg (snd item) benchmark (Some window)))
            (Fin (DIVERGENCE_THRESHOLD cfg * 100)))"

definition nonpos :: "pyfloat \<Rightarrow> bool" where
  "nonpos x = (x = NInf \<or> (\<exists>a. x = Fin a \<and> a \<le> 0))"

section \<open>Properties\<close>

lemma fle_Fin [simp]: "fle (Fin a) (Fin b) = (a \<le> b)"
  by (auto simp: fle_def)

lemma flt_fle_trans: "flt x y \<Longrightarrow> fle y z \<Longrightarrow> fle x z"
  by (cases x; cases y; cases z) (auto simp: fle_def)

lemma check_spread_alert_level:
  "fst (check_spread_alert cfg (Fin s)) =
     (if s \<le> SPREAD_CRITICAL cfg then ''critical''
      else if s \<le> SPREAD_DANGER cfg then ''danger''
      else if s \<le> SPREAD_WARNING cfg then ''warning''
      else ''safe'')"
  by (simp add: check_spread_alert_def to_scalar_def)

lemma level_priority_simps:
  "level_priority ''critical'' = Some 0"
  "level_priority ''danger'' = Some 1"
  "level_priority ''warning'' = Some 2"
  "level_priority ''safe'' = Some 4"
  by (simp_all add: level_priority_def AlertLevel_of_def)

text \<open>
  C3.  \<open>check_spread_alert\<close> is monotone in severity: of two spreads, the smaller one
  never gets the less severe level (a smaller \<open>LEVEL_PRIORITY\<close> is more severe, so the
  order is safe, warning, danger, critical).  The level is critical exactly when the
  spread is at most the critical threshold, danger exactly when that fails and the
  spread is at most the danger threshold, warning exactly when both fail and the spread
  is at most the warning threshold, and safe exactly when no comparison holds.
\<close>

theorem check_spread_alert_monotone:
  "s1 < s2 \<Longrightarrow>
     (\<exists>p1 p2. level_priority (fst (check_spread_alert cfg (Fin s1))) = Some p1
        \<and> level_priority (fst (check_spread_alert cfg (Fin s2))) = Some p2
        \<and> p1 \<le> p2)
   \<and> (fst (check_spread_alert cfg (Fin s1)) = ''critical'' \<longleftrightarrow> s1 \<le> SPREAD_CRITICAL cfg)
   \<and> (fst (check_spread_alert cfg (Fin s1)) = ''danger'' \<longleftrightarrow>
        \<not> s1 \<le> SPREAD_CRITICAL cfg \<and> s1 \<le> SPREAD_DANGER cfg)
   \<and> (fst (check_spread_alert cfg (Fin s1)) = ''warning'' \<longleftrightarrow>
        \<not> s1 \<le> SPREAD_CRITICAL cfg \<and> \<not> s1 \<le> SPREAD_DANGER cfg \<and> s1 \<le> SPREAD_WARNING cfg)
   \<and> (fst (check_spread_alert cfg (Fin s1)) = ''safe'' \<longleftrightarrow>
        \<not> s1 \<le> SPREAD_CRITICAL cfg \<and> \<not> s1 \<le> SPREAD_DANGER cfg \<and> \<not> s1 \<le> SPREAD_WARNING cfg)"
proof -
  assume lt: "s1 < s2"
  have mono: "\<exists>p1 p2. level_priority (fst (check_spread_alert cfg (Fin s1))) = Some p1
        \<and> level_priority (fst (check_spread_alert cfg (Fin s2))) = Some p2 \<and> p1 \<le> p2"
    using lt unfolding check_spread_alert_level
    by (simp add: level_priority_simps)
  have shape: "(fst (check_spread_alert cfg (Fin s1)) = ''critical'' \<longleftrightarrow> s1 \<le> SPREAD_CRITICAL cfg)
   \<and> (fst (check_spread_alert cfg (Fin s1)) = ''danger'' \<longleftrightarrow>
        \<not> s1 \<le> SPREAD_CRITICAL cfg \<and> s1 \<le> SPREAD_DANGER cfg)
   \<and> (fst (check_spread_alert cfg (Fin s1)) = ''warning'' \<longleftrightarrow>
        \<not> s1 \<le> SPREAD_CRITICAL cfg \<and> \<not> s1 \<le> SPREAD_DANGER cfg \<and> s1 \<le> SPREAD_WARNING cfg)
   \<and> (fst (check_spread_alert cfg (Fin s1)) = ''safe'' \<longleftrightarrow>
        \<not> s1 \<le> SPREAD_CRITICAL cfg \<and> \<not> s1 \<le> SPREAD_DANGER cfg \<and> \<not> s1 \<le> SPREAD_WARNING cfg)"
    unfolding check_spread_alert_level by simp
  from mono shape show ?thesis by blast
qed

theorem check_spread_alert_monotone_witness:
  "(1.3::real) < 3.0
   \<and> fst (check_spread_alert cfg0 (Fin 1.3)) = ''critical''
   \<and> fst (check_spread_alert cfg0 (Fin 3.0)) = ''safe''
   \<and> (\<exists>p1 p2. level_priority (fst (check_spread_alert cfg0 (Fin 1.3))) = Some p1
        \<and> level_priority (fst (check_spread_alert cfg0 (Fin 3.0))) = Some p2 \<and> p1 \<le> p2)"
proof -
  have h: "(1.3::real) < 3.0" by simp
  have c: "fst (check_spread_alert cfg0 (Fin 1.3)) = ''critical''"
    by (simp add: check_spread_alert_level cfg0_def)
  have s: "fst (check_spread_alert cfg0 (Fin 3.0)) = ''safe''"
    by (simp add: check_spread_alert_level cfg0_def)
  from check_spread_alert_monotone [OF h, of cfg0] h c s show ?thesis by blast
qed

subsection \<open>Order on floats\<close>

lemma flt_irrefl: "\<not> flt x x"
  by (cases x) auto

lemma flt_asym: "flt x y \<Longrightarrow> \<not> flt y x"
  by (cases x; cases y) auto

lemma flt_trans: "flt x y \<Longrightarrow> flt y z \<Longrightarrow> flt x z"
  by (cases x; cases y; cases z) auto

lemma flt_fge_trans: "flt x (Fin 0) \<Longrightarrow> fge y (Fin 0) \<Longrightarrow> flt x y"
  by (cases x; cases y) (auto simp: fge_def fle_def)

lemma fge_not_flt: "fge x (Fin 0) \<Longrightarrow> \<not> flt x (Fin 0)"
  by (cases x) (auto simp: fge_def fle_def)

subsection \<open>Composite risk score\<close>

lemma score_spread_eq:
  "score_spread st (sc, fs) =
     (sc + spread_band (dict_get st ''current'' (Fin 5.0)),
      fs @ (let s = dict_get st ''current'' (Fin 5.0) in
            if fle s (Fin 1.5) then [factor_spread_40]
            else if fle s (Fin 2.0) then [factor_spread_30]
            else if fle s (Fin 2.5) then [factor_spread_20]
            else if fle s (Fin 3.0) then [factor_spread_10] else []))"
  by (simp add: score_spread_def spread_band_def Let_def)

lemma score_volatility_eq:
  "score_volatility st (sc, fs) =
     (sc + volatility_band (dict_get st ''hv_percentile'' (Fin 50)),
      fs @ (let p = dict_get st ''hv_percentile'' (Fin 50) in
            if fge p (Fin 95) then [factor_vol_30]
            else if fge p (Fin 80) then [factor_vol_20]
            else if fge p (Fin 60) then [factor_vol_10] else []))"
  by (simp add: score_volatility_def volatility_band_def Let_def)

lemma score_divergence_eq:
  "score_divergence d (sc, fs) =
     (sc + divergence_band (divergence_detected d) (divergence_score d),
      fs @ (if divergence_detected d
            then (if fgt (fabs (divergence_score d)) (Fin 20) then [factor_div_30]
                  else if fgt (fabs (divergence_score d)) (Fin 10) then [factor_div_20]
                  else [factor_div_10])
            else []))"
  by (simp add: score_divergence_def divergence_band_def Let_def)

lemma spread_band_range: "0 \<le> spread_band s \<and> spread_band s \<le> 40"
  by (simp add: spread_band_def)

lemma volatility_band_range: "0 \<le> volatility_band s \<and> volatility_band s \<le> 30"
  by (simp add: volatility_band_def)

lemma divergence_band_range: "0 \<le> divergence_band b s \<and> divergence_band b s \<le> 30"
  by (simp add: divergence_band_def)

text \<open>
  C1.  With current spread 1.0, volatility percentile 97 and a detected divergence of
  score -25, \<open>calculate_composite_risk_score\<close> returns the score 100 and exactly three
  factors: the spread factor, then the volatility factor, then the divergence factor.
  For all inputs the score is the sum of the spread band (40, 30, 20, 10 or 0), the
  volatility band (30, 20, 10 or 0) and the divergence band (30, 20 or 10 when detected,
  else 0), and so lies between 0 and 100.
\<close>

theorem composite_risk_score_bands:
  "(spread_stats ''current'' = Some (Fin 1.0) \<and> vol_stats ''hv_percentile'' = Some (Fin 97)
      \<and> divergence_detected d \<and> divergence_score d = Fin (-25) \<longrightarrow>
      calculate_composite_risk_score spread_stats vol_stats d
        = (100, [factor_spread_40, factor_vol_30, factor_div_30])
      \<and> length (snd (calculate_composite_risk_score spread_stats vol_stats d)) = 3)
   \<and> fst (calculate_composite_risk_score spread_stats vol_stats d)
       = spread_band (dict_get spread_stats ''current'' (Fin 5.0))
         + volatility_band (dict_get vol_stats ''hv_percentile'' (Fin 50))
         + divergence_band (divergence_detected d) (divergence_score d)
   \<and> 0 \<le> fst (calculate_composite_risk_score spread_stats vol_stats d)
   \<and> fst (calculate_composite_risk_score spread_stats vol_stats d) \<le> 100"
proof -
  have sum: "fst (calculate_composite_risk_score spread_stats vol_stats d)
       = spread_band (dict_get spread_stats ''current'' (Fin 5.0))
         + volatility_band (dict_get vol_stats ''hv_percentile'' (Fin 50))
         + divergence_band (divergence_detected d) (divergence_score d)"
    by (simp add: calculate_composite_risk_score_def score_spread_eq score_volatility_eq
        score_divergence_eq)
  have scen: "calculate_composite_risk_score spread_stats vol_stats d
        = (100, [factor_spread_40, factor_vol_30, factor_div_30])"
    if "spread_stats ''current'' = Some (Fin 1.0)" "vol_stats ''hv_percentile'' = Some (Fin 97)"
       "divergence_detected d" "divergence_score d = Fin (-25)"
    using that
    by (simp add: calculate_composite_risk_score_def score_spread_eq score_volatility_eq
        score_divergence_eq dict_get_def spread_band_def volatility_band_def divergence_band_def
        fge_def fgt_def)
  have rng: "0 \<le> fst (calculate_composite_risk_score spread_stats vol_stats d)
     \<and> fst (calculate_composite_risk_score spread_stats vol_stats d) \<le> 100"
    unfolding sum
    using spread_band_range [of "dict_get spread_stats ''current'' (Fin 5.0)"]
      volatility_band_range [of "dict_get vol_stats ''hv_percentile'' (Fin 50)"]
      divergence_band_range [of "divergence_detected d" "divergence_score d"]
    by linarith
  from sum scen rng show ?thesis by simp
qed

theorem composite_risk_score_bands_witness:
  "calculate_composite_risk_score [''current'' \<mapsto> Fin 1.0] [''hv_percentile'' \<mapsto> Fin 97] div_ex
     = (100, [factor_spread_40, factor_vol_30, factor_div_30])
   \<and> length (snd (calculate_composite_risk_score
        [''current'' \<mapsto> Fin 1.0] [''hv_percentile'' \<mapsto> Fin 97] div_ex)) = 3"
  using composite_risk_score_bands
    [of "[''current'' \<mapsto> Fin 1.0]" "[''hv_percentile'' \<mapsto> Fin 97]" div_ex]
  by (simp add: div_ex_def)

subsection \<open>Spread velocity and acceleration\<close>

lemma tail_eq_Nil: "tail n xs = [] \<longleftrightarrow> n = 0 \<or> xs = []"
  by (cases xs) (auto simp: tail_def)

lemma velocity_returns:
  "0 < w \<Longrightarrow> \<exists>v. calculate_spread_velocity df w = Inr v"
  by (auto simp: calculate_spread_velocity_def Let_def tail_eq_Nil split: option.splits)

lemma spread_ex_v20: "calculate_spread_velocity spread_ex 20 = Inr (Fin 0.75)"
  by (simp add: calculate_spread_velocity_def spread_ex_def frame_of_def df_empty_def column_def
      dropna_def tail_def fsub_def upt_rec)

lemma spread_ex_v5: "calculate_spread_velocity spread_ex 5 = Inr (Fin (-0.8))"
  by (simp add: calculate_spread_velocity_def spread_ex_def frame_of_def df_empty_def column_def
      dropna_def tail_def fsub_def upt_rec)

text \<open>
  C2, as the specification states it, fails.  On the series 1, 2, ..., 15, 20, 19, 18,
  17, 16 the 20-day velocity is (16 - 1) / 20 = 0.75, which is non-negative, the 5-day
  velocity is (16 - 20) / 5 = -0.8, and \<open>is_spread_accelerating\<close> returns true.
\<close>

theorem is_spread_accelerating_counterexample:
  "calculate_spread_velocity spread_ex 20 = Inr (Fin 0.75) \<and> fge (Fin 0.75) (Fin 0)
   \<and> is_spread_accelerating spread_ex = Inr True"
  by (simp add: is_spread_accelerating_def spread_ex_v20 spread_ex_v5 fge_def)

text \<open>
  C2, amended.  For every spread frame both velocities are returned and
  \<open>is_spread_accelerating\<close> is true exactly when the 5-day velocity is below the 20-day
  velocity and below zero.  So when the 20-day velocity is non-negative the result is
  true exactly when the 5-day velocity is negative, and the result is false whenever
  the 5-day velocity is non-negative, whatever the 20-day velocity.
\<close>

theorem is_spread_accelerating_amended:
  "\<exists>v5 v20. calculate_spread_velocity df 5 = Inr v5
      \<and> calculate_spread_velocity df 20 = Inr v20
      \<and> is_spread_accelerating df = Inr (flt v5 v20 \<and> flt v5 (Fin 0))
      \<and> (fge v20 (Fin 0) \<longrightarrow> is_spread_accelerating df = Inr (flt v5 (Fin 0)))
      \<and> (fge v5 (Fin 0) \<longrightarrow> is_spread_accelerating df = Inr False)"
proof -
  obtain v5 where v5: "calculate_spread_velocity df 5 = Inr v5"
    using velocity_returns [of 5 df] by auto
  obtain v20 where v20: "calculate_spread_velocity df 20 = Inr v20"
    using velocity_returns [of 20 df] by auto
  have r: "is_spread_accelerating df = Inr (flt v5 v20 \<and> flt v5 (Fin 0))"
    by (simp add: is_spread_accelerating_def v5 v20)
  have a: "fge v20 (Fin 0) \<Longrightarrow> (flt v5 v20 \<and> flt v5 (Fin 0)) = flt v5 (Fin 0)"
    using flt_fge_trans by blast
  have b: "fge v5 (Fin 0) \<Longrightarrow> (flt v5 v20 \<and> flt v5 (Fin 0)) = False"
    using fge_not_flt by blast
  from v5 v20 r a b show ?thesis by auto
qed

theorem is_spread_accelerating_amended_witness:
  "fge (Fin 0.75) (Fin 0) \<and> calculate_spread_velocity spread_ex 5 = Inr (Fin (-0.8))
   \<and> is_spread_accelerating spread_ex = Inr (flt (Fin (-0.8)) (Fin 0))"
  using is_spread_accelerating_amended [of spread_ex]
  by (auto simp: spread_ex_v20 spread_ex_v5 fge_def)

subsection \<open>Spread percentile\<close>

lemma sorted_wrt_last: "sorted_wrt P xs \<Longrightarrow> x \<in> set (butlast xs) \<Longrightarrow> P x (last xs)"
  by (induction xs) (auto split: if_splits)

lemma decreasing_none_below_last:
  assumes "strictly_decreasing vs" "v \<in> set vs"
  shows "\<not> flt v (last vs)"
proof -
  have tr: "transp (\<lambda>a b. flt b a)"
    by (auto simp: transp_def intro: flt_trans)
  from assms(1) have sw: "sorted_wrt (\<lambda>a b. flt b a) vs"
    by (simp add: strictly_decreasing_def successively_conv_sorted_wrt [OF tr])
  from assms(2) have ne: "vs \<noteq> []" by auto
  then have "set vs = insert (last vs) (set (butlast vs))"
    by (metis append_butlast_last_id list.simps(15) rotate1.simps(2) set_rotate1)
  with assms(2) consider "v = last vs" | "v \<in> set (butlast vs)" by auto
  then show ?thesis
  proof cases
    case 1 then show ?thesis by (simp add: flt_irrefl)
  next
    case 2
    from sorted_wrt_last [OF sw 2] show ?thesis by (rule flt_asym)
  qed
qed

lemma percentile_lookup:
  assumes "\<not> df_empty df" "column df ''Spread'' = Some col" "map snd (dropna col) \<noteq> []"
  shows "get_spread_statistics df ''percentile'' =
     Some (Fin (real (length (filter (\<lambda>v. flt v (last (map snd (dropna col))))
                        (map snd (dropna col))))
              / real (length (map snd (dropna col))) * 100))"
  using assms by (simp add: get_spread_statistics_def Let_def to_scalar_def)

text \<open>
  C4.  When the frame has a \<open>Spread\<close> column with at least one value that is not NaN,
  the \<open>percentile\<close> entry of \<open>get_spread_statistics\<close> is the number of observations
  strictly below the latest one, divided by the number of observations, times 100.
  It lies between 0 and 100, and it is 0 when the observations are strictly decreasing.
\<close>

theorem spread_percentile:
  assumes "\<not> df_empty df" and "column df ''Spread'' = Some col"
    and "spread = map snd (dropna col)" and "spread \<noteq> []"
  shows "\<exists>p. get_spread_statistics df ''percentile'' = Some (Fin p)
     \<and> p = real (length (filter (\<lambda>v. flt v (last spread)) spread)) / real (length spread) * 100
     \<and> 0 \<le> p \<and> p \<le> 100
     \<and> (strictly_decreasing spread \<longrightarrow> p = 0)"
proof -
  define k where "k = length (filter (\<lambda>v. flt v (last spread)) spread)"
  define p where "p = real k / real (length spread) * 100"
  have look: "get_spread_statistics df ''percentile'' = Some (Fin p)"
    using percentile_lookup [OF assms(1,2)] assms(3,4) by (simp add: p_def k_def)
  have n: "0 < length spread" using assms(4) by simp
  have kn: "k \<le> length spread" by (simp add: k_def)
  have lo: "0 \<le> p" by (simp add: p_def)
  from kn have "real k * 100 \<le> 100 * real (length spread)" by simp
  with n have hi: "p \<le> 100" by (simp add: p_def pos_divide_le_eq)
  have dec: "p = 0" if "strictly_decreasing spread"
  proof -
    have "filter (\<lambda>v. flt v (last spread)) spread = []"
      using decreasing_none_below_last [OF that] by (simp add: filter_empty_conv)
    then show ?thesis by (simp add: p_def k_def)
  qed
  from look lo hi dec show ?thesis by (auto simp: p_def k_def)
qed

theorem spread_percentile_witness:
  "\<not> df_empty (frame_of ''Spread'' [3, 2, 1])
   \<and> column (frame_of ''Spread'' [3, 2, 1]) ''Spread'' = Some [(0, Fin 3), (1, Fin 2), (2, Fin 1)]
   \<and> strictly_decreasing [Fin 3, Fin 2, Fin 1]
   \<and> get_spread_statistics (frame_of ''Spread'' [3, 2, 1]) ''percentile'' = Some (Fin 0)"
proof -
  have e: "\<not> df_empty (frame_of ''Spread'' [3, 2, 1])"
    by (simp add: df_empty_def frame_of_def)
  have c: "column (frame_of ''Spread'' [3, 2, 1]) ''Spread''
      = Some [(0, Fin 3), (1, Fin 2), (2, Fin 1)]"
    by (simp add: column_def frame_of_def upt_rec)
  have s: "[Fin 3, Fin 2, Fin 1] = map snd (dropna [(0, Fin 3), (1, Fin 2), (2, Fin 1)])"
    by (simp add: dropna_def)
  have d: "strictly_decreasing [Fin 3, Fin 2, Fin 1]"
    by (simp add: strictly_decreasing_def)
  from spread_percentile [OF e c s] d e c show ?thesis by auto
qed

subsection \<open>Historical volatility\<close>

lemma fdiv_NaN_right [simp]: "fdiv x NaN = NaN"
  by (cases x) auto

lemma fmul_NaN_left [simp]: "fmul NaN y = NaN"
  by simp

lemma nonneg_or_nan_cases:
  "nonneg_or_nan x \<longleftrightarrow> x = NaN \<or> x = PInf \<or> (\<exists>r. x = Fin r \<and> 0 \<le> r)"
  by (cases x) (auto simp: nonneg_or_nan_def fge_def fle_def)

lemma fsqrt_nonneg: "nonneg_or_nan (fsqrt x)"
  by (cases x) (auto simp: nonneg_or_nan_cases)

lemma fmul_pos_nonneg: "nonneg_or_nan x \<Longrightarrow> 0 < c \<Longrightarrow> nonneg_or_nan (fmul x (Fin c))"
  by (auto simp: nonneg_or_nan_cases inf_of_sign_def)

lemma rolling_std_length [simp]: "length (rolling_std w vs) = length vs"
  by (simp add: rolling_std_def)

lemma rolling_std_nth:
  "i < length vs \<Longrightarrow> rolling_std w vs ! i =
     (let win = rolling_window w vs i in if w \<le> length win then nanstd win else NaN)"
  by (simp add: rolling_std_def)

lemma rolling_std_nonneg: "i < length vs \<Longrightarrow> nonneg_or_nan (rolling_std w vs ! i)"
  by (simp add: rolling_std_nth Let_def nanstd_def fsqrt_nonneg) (simp add: nonneg_or_nan_def)

lemma notna_values_length_le: "length (notna_values vs) \<le> length vs"
  by (simp add: notna_values_def)

lemma notna_values_NaN_lt:
  "NaN \<in> set vs \<Longrightarrow> length (notna_values vs) < length vs"
  unfolding notna_values_def
  by (rule length_filter_less) auto

lemma rolling_window_short:
  assumes "i < w" "i < length vs" "vs ! 0 = NaN"
  shows "length (rolling_window w vs i) < w"
proof -
  have t: "tail w (take (Suc i) vs) = take (Suc i) vs"
    using assms by (simp add: tail_def)
  have "take (Suc i) vs ! 0 = NaN" using assms by simp
  moreover have "0 < length (take (Suc i) vs)" using assms by simp
  ultimately have "NaN \<in> set (take (Suc i) vs)" by (metis nth_mem)
  then have "NaN \<in> set (map inf_to_nan (take (Suc i) vs))"
    by (force simp: inf_to_nan_def)
  from notna_values_NaN_lt [OF this] have "length (rolling_window w vs i) < Suc i"
    using assms by (simp add: rolling_window_def t)
  with assms show ?thesis by simp
qed

lemma rolling_std_first:
  assumes "i < w" "i < length vs" "vs ! 0 = NaN"
  shows "rolling_std w vs ! i = NaN"
  using rolling_window_short [OF assms] assms(2) by (simp add: rolling_std_nth Let_def)


lemma log_returns_length [simp]: "length (log_returns_of vs) = length vs"
  by (simp add: log_returns_of_def shift_def)

lemma log_returns_first: "vs \<noteq> [] \<Longrightarrow> log_returns_of vs ! 0 = NaN"
  by (cases vs) (simp_all add: log_returns_of_def shift_def)

lemma hv_values:
  "\<not> df_empty prices \<Longrightarrow>
     map snd (calculate_historical_volatility cfg prices (Some w)) =
       map (\<lambda>s. fmul (fmul s (Fin (sqrt 252))) (Fin 100))
           (rolling_std w (log_returns_of (map snd (close_of prices))))"
  by (simp add: calculate_historical_volatility_def Let_def map_snd_zip_take)

lemma hv_empty: "df_empty prices \<Longrightarrow> calculate_historical_volatility cfg prices w = []"
  by (simp add: calculate_historical_volatility_def)

lemma close_of_length: "length (close_of df) \<le> length (df_index df)"
  by (auto simp: close_of_def column_def split: option.splits list.splits)

lemma hv_length:
  "length (calculate_historical_volatility cfg prices w) \<le> length (df_index prices)"
  using close_of_length [of prices]
  by (simp add: calculate_historical_volatility_def Let_def)

text \<open>
  C6.  For every price frame and window \<open>w\<close>, the historical volatility (rolling sample
  standard deviation of the log returns, times the square root of 252, times 100) is
  undefined (NaN) at each of the first \<open>w\<close> positions, so a defined value needs at least
  \<open>w + 1\<close> prices, and every defined value is at least zero.
\<close>

theorem historical_volatility_defined:
  assumes "hv = map snd (calculate_historical_volatility cfg prices (Some w))"
  shows "(\<forall>i<length hv. i < w \<longrightarrow> isna (hv ! i))
       \<and> ((\<exists>i<length hv. \<not> isna (hv ! i)) \<longrightarrow> w + 1 \<le> length (df_index prices))
       \<and> (\<forall>i<length hv. \<not> isna (hv ! i) \<longrightarrow> fge (hv ! i) (Fin 0))"
proof (cases "df_empty prices")
  case True
  then show ?thesis using assms by (simp add: hv_empty)
next
  case False
  define lr where "lr = log_returns_of (map snd (close_of prices))"
  have hv: "hv = map (\<lambda>s. fmul (fmul s (Fin (sqrt 252))) (Fin 100)) (rolling_std w lr)"
    using assms hv_values [OF False] by (simp add: lr_def)
  have len: "length hv = length lr" by (simp add: hv)
  have first: "isna (hv ! i)" if "i < length hv" "i < w" for i
  proof -
    from that len have "map snd (close_of prices) \<noteq> []" by (auto simp: lr_def)
    then have "lr ! 0 = NaN" unfolding lr_def by (rule log_returns_first)
    with that len have "rolling_std w lr ! i = NaN" by (simp add: rolling_std_first)
    with that len show ?thesis by (simp add: hv)
  qed
  have nonneg: "fge (hv ! i) (Fin 0)" if "i < length hv" "\<not> isna (hv ! i)" for i
  proof -
    from that len have "nonneg_or_nan (rolling_std w lr ! i)" by (simp add: rolling_std_nonneg)
    then have "nonneg_or_nan (fmul (fmul (rolling_std w lr ! i) (Fin (sqrt 252))) (Fin 100))"
      by (intro fmul_pos_nonneg) simp_all
    with that len show ?thesis by (simp add: hv nonneg_or_nan_def)
  qed
  have need: "w + 1 \<le> length (df_index prices)" if "i < length hv" "\<not> isna (hv ! i)" for i
  proof -
    from first that have "w \<le> i" by (meson not_le)
    moreover have "length hv \<le> length (df_index prices)"
      using hv_length [of cfg prices "Some w"] by (simp add: assms)
    ultimately show ?thesis using that by simp
  qed
  from first nonneg need show ?thesis by blast
qed

lemma flat3_hv: "map snd (calculate_historical_volatility cfg flat3 (Some 2)) = [NaN, NaN, Fin 0]"
  by (simp add: calculate_historical_volatility_def flat3_def frame_of_def df_empty_def
      close_of_def column_def log_returns_of_def shift_def rolling_std_def rolling_window_def
      tail_def notna_values_def inf_to_nan_def nanstd_def nanvar_def fsum_def fsub_def upt_rec
      Let_def)

theorem historical_volatility_defined_witness:
  "map snd (calculate_historical_volatility cfg0 flat3 (Some 2)) = [NaN, NaN, Fin 0]
   \<and> isna ([NaN, NaN, Fin 0] ! 0) \<and> isna ([NaN, NaN, Fin 0] ! 1)
   \<and> \<not> isna ([NaN, NaN, Fin 0] ! 2) \<and> fge ([NaN, NaN, Fin 0] ! 2) (Fin 0)
   \<and> 2 + 1 \<le> length (df_index flat3)"
proof -
  have h: "[NaN, NaN, Fin 0] = map snd (calculate_historical_volatility cfg0 flat3 (Some 2))"
    by (simp add: flat3_hv)
  have l: "length (df_index flat3) = 3"
    by (simp add: flat3_def frame_of_def)
  from historical_volatility_defined [OF h] l show ?thesis
    by (simp add: flat3_hv fge_def)
qed

text \<open>
  C10.  On a price frame with fewer than 20 rows \<open>is_volatility_spiking\<close> is false,
  whatever the prices: the comparison of the mean of the last 5 volatilities with 1.5
  times the mean of the last 20 is made only when the volatility series has at least
  20 entries.
\<close>

theorem is_volatility_spiking_short:
  "(length (df_index prices) < 20 \<longrightarrow> \<not> is_volatility_spiking cfg prices)
   \<and> (is_volatility_spiking cfg prices \<longleftrightarrow>
        20 \<le> length (calculate_historical_volatility cfg prices None)
        \<and> fgt (nanmean (tail 5 (map snd (calculate_historical_volatility cfg prices None))))
            (fmul (nanmean (tail 20 (map snd (calculate_historical_volatility cfg prices None))))
                  (Fin 1.5)))"
proof -
  have a: "\<not> is_volatility_spiking cfg prices" if "length (df_index prices) < 20"
    using that hv_length [of cfg prices None] by (simp add: is_volatility_spiking_def)
  have b: "is_volatility_spiking cfg prices \<longleftrightarrow>
        20 \<le> length (calculate_historical_volatility cfg prices None)
        \<and> fgt (nanmean (tail 5 (map snd (calculate_historical_volatility cfg prices None))))
            (fmul (nanmean (tail 20 (map snd (calculate_historical_volatility cfg prices None))))
                  (Fin 1.5))"
    by (auto simp: is_volatility_spiking_def Let_def)
  from a b show ?thesis by blast
qed

theorem is_volatility_spiking_short_witness:
  "length (df_index jump2) < 20 \<and> \<not> is_volatility_spiking cfg0 jump2"
proof -
  have l: "length (df_index jump2) < 20"
    by (simp add: jump2_def frame_of_def)
  with is_volatility_spiking_short [of jump2 cfg0] show ?thesis by blast
qed

subsection \<open>Relative strength and divergence\<close>

lemma fsub_self: "fsub x x = Fin 0 \<or> fsub x x = NaN"
  by (cases x) (auto simp: fsub_def)

lemma rs_value_self: "fmul (fsub x x) (Fin 100) = Fin 0 \<or> fmul (fsub x x) (Fin 100) = NaN"
  using fsub_self [of x] by auto

lemma map2_same: "map2 f xs xs = map (\<lambda>x. f x x) xs"
  by (simp add: zip_same_conv_map)

lemma relative_strength_self_form:
  "\<exists>ls r. calculate_relative_strength cfg df df w
      = zip ls (map (\<lambda>x. fmul (fsub x x) (Fin 100)) r)"
proof (cases "df_empty df")
  case True
  have "calculate_relative_strength cfg df df w = zip [] (map (\<lambda>x. fmul (fsub x x) (Fin 100)) [])"
    using True by (simp add: calculate_relative_strength_def)
  then show ?thesis by blast
next
  case False
  define R where "R = pct_change (case w of None \<Rightarrow> RELATIVE_STRENGTH_WINDOW cfg | Some k \<Rightarrow> k)
      (loc (close_of df) (index_intersection (map fst (close_of df)) (map fst (close_of df))))"
  have "calculate_relative_strength cfg df df w
      = zip (map fst R) (map (\<lambda>x. fmul (fsub x x) (Fin 100)) (map snd R))"
    using False by (simp add: calculate_relative_strength_def Let_def map2_same R_def)
  then show ?thesis by blast
qed

lemma relative_strength_self_values:
  assumes "v \<in> set (map snd (calculate_relative_strength cfg df df w))"
  shows "v = Fin 0 \<or> v = NaN"
proof -
  obtain ls r where f: "calculate_relative_strength cfg df df w
      = zip ls (map (\<lambda>x. fmul (fsub x x) (Fin 100)) r)"
    using relative_strength_self_form by blast
  from assms obtain l where "(l, v) \<in> set (zip ls (map (\<lambda>x. fmul (fsub x x) (Fin 100)) r))"
    unfolding f by auto
  then have "v \<in> set (map (\<lambda>x. fmul (fsub x x) (Fin 100)) r)"
    by (rule set_zip_rightD)
  then obtain x where "v = fmul (fsub x x) (Fin 100)" by auto
  with rs_value_self [of x] show ?thesis by simp
qed

lemma current_rs_self:
  assumes "calculate_relative_strength cfg df df w \<noteq> []"
  shows "current_rs_of (calculate_relative_strength cfg df df w) = Fin 0"
proof -
  let ?rs = "calculate_relative_strength cfg df df w"
  have "snd (last ?rs) \<in> set (map snd ?rs)" using assms by simp
  from relative_strength_self_values [OF this] show ?thesis
    by (auto simp: current_rs_of_def to_scalar_def)
qed

lemma divergence_step_self:
  assumes "DIVERGENCE_THRESHOLD cfg \<le> 0"
  shows "fst (divergence_step cfg df w br ([], res) (t, df)) = []"
proof -
  have "\<not> flt (Fin 0) (Fin (DIVERGENCE_THRESHOLD cfg * 100))" using assms by simp
  then show ?thesis
    by (auto simp: divergence_step_def Let_def current_rs_self)
qed

lemma divergence_step_fields:
  "divergence_detected (snd (divergence_step cfg b w br st item)) = divergence_detected (snd st)
   \<and> divergence_score (snd (divergence_step cfg b w br st item)) = divergence_score (snd st)"
  by (cases st; cases item) (simp add: divergence_step_def Let_def)

lemma divergence_fold_fields:
  "divergence_detected (snd (foldl (divergence_step cfg b w br) st items)) = divergence_detected (snd st)
   \<and> divergence_score (snd (foldl (divergence_step cfg b w br) st items)) = divergence_score (snd st)"
  by (induction items arbitrary: st) (simp_all add: divergence_step_fields)

text \<open>
  C5.  When one frame serves both as the asset and as the benchmark, every entry of
  \<open>calculate_relative_strength\<close> is 0 or undefined (NaN), and \<open>detect_divergence\<close> on
  the map holding that single asset reports no divergence.  The second part reads the
  divergence threshold of the configuration, which the specification gives as a
  negative fraction; it holds for every threshold that is not positive.
\<close>

theorem identical_series_no_divergence:
  "(\<forall>i < length (calculate_relative_strength cfg df df w).
       snd (calculate_relative_strength cfg df df w ! i) = Fin 0
       \<or> isna (snd (calculate_relative_strength cfg df df w ! i)))
   \<and> (DIVERGENCE_THRESHOLD cfg \<le> 0 \<longrightarrow>
        \<not> divergence_detected (detect_divergence cfg [(t, df)] df w))"
proof -
  have a: "snd (calculate_relative_strength cfg df df w ! i) = Fin 0
       \<or> isna (snd (calculate_relative_strength cfg df df w ! i))"
    if "i < length (calculate_relative_strength cfg df df w)" for i
  proof -
    from that have "snd (calculate_relative_strength cfg df df w ! i)
        \<in> set (map snd (calculate_relative_strength cfg df df w))" by simp
    from relative_strength_self_values [OF this] show ?thesis by auto
  qed
  have b: "\<not> divergence_detected (detect_divergence cfg [(t, df)] df w)"
    if thr: "DIVERGENCE_THRESHOLD cfg \<le> 0"
  proof (cases "df_empty df")
    case True
    then show ?thesis by (simp add: detect_divergence_def)
  next
    case False
    define k where "k = (case w of None \<Rightarrow> RELATIVE_STRENGTH_WINDOW cfg | Some n \<Rightarrow> n)"
    define br where "br = window_return (map snd (close_of df)) k"
    define res where "res = \<lparr>divergence_detected = False, divergence_score = Fin 0,
        details = [], benchmark_performance = br, high_beta_performance = []\<rparr>"
    define st where "st = divergence_step cfg df k br ([], res) (t, df)"
    have s1: "fst st = []" unfolding st_def by (rule divergence_step_self [OF thr])
    have s2: "divergence_detected (snd st) = False"
      using divergence_step_fields [of cfg df k br "([], res)" "(t, df)"]
      by (simp add: st_def res_def)
    have "detect_divergence cfg [(t, df)] df w =
        (if fst st \<noteq> [] then (snd st)\<lparr>divergence_score := to_scalar (np_mean (fst st)),
                             divergence_detected := True\<rparr> else snd st)"
      using False
      by (simp add: detect_divergence_def Let_def k_def br_def res_def st_def split_beta)
    with s1 s2 show ?thesis by simp
  qed
  from a b show ?thesis by blast
qed

lemma up3_rs:
  "calculate_relative_strength cfg0 up3 up3 (Some 1) = [(0, NaN), (1, Fin 0), (2, Fin 0)]"
  by (simp add: calculate_relative_strength_def up3_def frame_of_def df_empty_def close_of_def
      column_def index_intersection_def loc_def pct_change_def pct_change_values_def ffill_def
      shift_def fsub_def upt_rec Let_def)

theorem identical_series_no_divergence_witness:
  "DIVERGENCE_THRESHOLD cfg0 \<le> 0
   \<and> calculate_relative_strength cfg0 up3 up3 (Some 1) = [(0, NaN), (1, Fin 0), (2, Fin 0)]
   \<and> \<not> divergence_detected (detect_divergence cfg0 [(''BTC-USD'', up3)] up3 (Some 1))"
proof -
  have t: "DIVERGENCE_THRESHOLD cfg0 \<le> 0" by (simp add: cfg0_def)
  from identical_series_no_divergence [of cfg0 up3 "Some 1" "''BTC-USD''"] t up3_rs
  show ?thesis by blast
qed

lemma flagged_strengths_alt:
  "flagged_strengths cfg assets benchmark window =
     map (\<lambda>item. current_rs_of (calculate_relative_strength cfg (snd item) benchmark (Some window)))
       (filter (flagged_item cfg benchmark window) assets)"
  by (simp add: flagged_strengths_def flagged_item_def [abs_def] split_def)

lemma divergence_step_scores:
  "fst (divergence_step cfg b w (window_return (map snd (close_of b)) w) (sc, res) item) =
     sc @ (if flagged_item cfg b w item
           then [current_rs_of (calculate_relative_strength cfg (snd item) b (Some w))] else [])"
  by (cases item) (simp add: divergence_step_def flagged_item_def Let_def)

lemma divergence_fold_scores:
  "fst (foldl (divergence_step cfg b w (window_return (map snd (close_of b)) w)) (sc, res) items) =
     sc @ flagged_strengths cfg items b w"
proof (induction items arbitrary: sc res)
  case Nil
  then show ?case by (simp add: flagged_strengths_alt)
next
  case (Cons item items)
  obtain sc' res' where st:
    "divergence_step cfg b w (window_return (map snd (close_of b)) w) (sc, res) item = (sc', res')"
    by (cases "divergence_step cfg b w (window_return (map snd (close_of b)) w) (sc, res) item")
  have sc': "sc' = sc @ (if flagged_item cfg b w item
           then [current_rs_of (calculate_relative_strength cfg (snd item) b (Some w))] else [])"
    using divergence_step_scores [of cfg b w sc res item] st by simp
  show ?case
    using Cons.IH [of sc' res'] by (simp add: st sc' flagged_strengths_alt)
qed

lemma flagged_strengths_empty_benchmark:
  "df_empty b \<Longrightarrow> flagged_strengths cfg items b w = []"
  by (simp add: flagged_strengths_alt flagged_item_def calculate_relative_strength_def)

lemma nonpos_fadd: "nonpos x \<Longrightarrow> nonpos y \<Longrightarrow> nonpos (fadd x y)"
  by (auto simp: nonpos_def)

lemma nonpos_foldl: "nonpos acc \<Longrightarrow> \<forall>x\<in>set xs. nonpos x \<Longrightarrow> nonpos (foldl fadd acc xs)"
  by (induction xs arbitrary: acc) (simp_all add: nonpos_fadd)

lemma nonpos_np_mean: "xs \<noteq> [] \<Longrightarrow> \<forall>x\<in>set xs. nonpos x \<Longrightarrow> nonpos (np_mean xs)"
proof -
  assume ne: "xs \<noteq> []" and all: "\<forall>x\<in>set xs. nonpos x"
  have "nonpos (fsum xs)" unfolding fsum_def
    by (rule nonpos_foldl) (simp add: nonpos_def, rule all)
  moreover have "0 < real (length xs)" using ne by simp
  ultimately show ?thesis
    by (auto simp: np_mean_def nonpos_def inf_of_sign_def divide_nonpos_pos)
qed

lemma nonpos_fle: "nonpos x \<Longrightarrow> fle x (Fin 0)"
  by (auto simp: nonpos_def fle_def)

lemma flt_neg_nonpos: "flt x (Fin c) \<Longrightarrow> c \<le> 0 \<Longrightarrow> nonpos x"
  by (cases x) (auto simp: nonpos_def)

lemma flagged_strengths_nonpos:
  "DIVERGENCE_THRESHOLD cfg < 0 \<Longrightarrow> \<forall>x\<in>set (flagged_strengths cfg items b w). nonpos x"
  by (auto simp: flagged_strengths_alt flagged_item_def intro!: flt_neg_nonpos
      [where c = "DIVERGENCE_THRESHOLD cfg * 100"] simp: mult_le_0_iff)

lemma detect_divergence_result:
  assumes "w = (case window of None \<Rightarrow> RELATIVE_STRENGTH_WINDOW cfg | Some k \<Rightarrow> k)"
  shows "divergence_detected (detect_divergence cfg assets b window)
           = (flagged_strengths cfg assets b w \<noteq> [])
       \<and> divergence_score (detect_divergence cfg assets b window)
           = (if flagged_strengths cfg assets b w \<noteq> []
              then np_mean (flagged_strengths cfg assets b w) else Fin 0)"
proof (cases "df_empty b")
  case True
  then show ?thesis
    by (simp add: detect_divergence_def flagged_strengths_empty_benchmark)
next
  case False
  define br where "br = window_return (map snd (close_of b)) w"
  define res where "res = \<lparr>divergence_detected = False, divergence_score = Fin 0,
        details = [], benchmark_performance = br, high_beta_performance = []\<rparr>"
  define st where "st = foldl (divergence_step cfg b w br) ([], res) assets"
  have s1: "fst st = flagged_strengths cfg assets b w"
    using divergence_fold_scores [of cfg b w "[]" res assets] by (simp add: st_def br_def)
  have s2: "divergence_detected (snd st) = False \<and> divergence_score (snd st) = Fin 0"
    using divergence_fold_fields [of cfg b w br "([], res)" assets]
    by (simp add: st_def res_def)
  have "detect_divergence cfg assets b window =
        (if fst st \<noteq> [] then (snd st)\<lparr>divergence_score := to_scalar (np_mean (fst st)),
                             divergence_detected := True\<rparr> else snd st)"
    using False assms
    by (simp add: detect_divergence_def Let_def br_def res_def st_def split_beta)
  with s1 s2 show ?thesis by (simp add: to_scalar_def)
qed

text \<open>
  C8.  With a negative divergence threshold, \<open>detect_divergence\<close> returns as
  \<open>divergence_score\<close> the arithmetic mean of the relative strengths of the flagged
  assets and sets \<open>divergence_detected\<close>; when no asset is flagged the flag is false and
  the score is 0; and whenever the flag is set the score is at most 0.
\<close>

theorem divergence_score_mean:
  assumes "DIVERGENCE_THRESHOLD cfg < 0"
    and "w = (case window of None \<Rightarrow> RELATIVE_STRENGTH_WINDOW cfg | Some k \<Rightarrow> k)"
    and "fl = flagged_strengths cfg assets benchmark w"
    and "r = detect_divergence cfg assets benchmark window"
  shows "(fl \<noteq> [] \<longrightarrow> divergence_detected r \<and> divergence_score r = np_mean fl)
       \<and> (fl = [] \<longrightarrow> \<not> divergence_detected r \<and> divergence_score r = Fin 0)
       \<and> (divergence_detected r \<longrightarrow> fle (divergence_score r) (Fin 0))"
proof -
  note res = detect_divergence_result [OF assms(2), where assets = assets and b = benchmark,
      folded assms(3,4)]
  have "fle (np_mean fl) (Fin 0)" if "fl \<noteq> []"
    using nonpos_np_mean [OF that] flagged_strengths_nonpos [OF assms(1), of assets benchmark w]
    by (simp add: assms(3) nonpos_fle)
  with res show ?thesis by auto
qed


subsection \<open>Liquidity retreat\<close>



















subsection \<open>Worked examples on the 21-day frames\<close>

lemmas frame_eval = frame_of_def df_empty_def close_of_def column_def index_intersection_def
  loc_def pct_change_def pct_change_values_def ffill_def shift_def tail_def upt_rec Let_def
  fsub_def





lemma rs5_double:
  "length (calculate_relative_strength cfg double21 bench21 (Some 5)) = 21
   \<and> snd (last (calculate_relative_strength cfg double21 bench21 (Some 5))) = Fin (- (16024 / 1331))"
  by (simp add: calculate_relative_strength_def double21_def bench21_def frame_eval)

lemma rs5_triple:
  "length (calculate_relative_strength cfg triple21 bench21 (Some 5)) = 21
   \<and> snd (last (calculate_relative_strength cfg triple21 bench21 (Some 5))) = Fin (- (34472 / 1331))"
  by (simp add: calculate_relative_strength_def triple21_def bench21_def frame_eval)

lemma rs5_half:
  "length (calculate_relative_strength cfg half21 bench21 (Some 5)) = 21
   \<and> snd (last (calculate_relative_strength cfg half21 bench21 (Some 5))) = Fin (212101 / 42592)"
  by (simp add: calculate_relative_strength_def half21_def bench21_def frame_eval)

lemma bench21_return5: "window_return (map snd (close_of bench21)) 5 = Fin 0"
  by (simp add: window_return_def iloc_back_def to_scalar_def bench21_def frame_eval)

lemma frames_not_empty:
  "\<not> df_empty double21" "\<not> df_empty triple21" "\<not> df_empty half21" "\<not> df_empty bench21"
  by (simp_all add: double21_def triple21_def half21_def bench21_def frame_of_def df_empty_def)

lemma length_21_nonempty: "length xs = 21 \<and> P \<Longrightarrow> xs \<noteq> []"
  by auto

lemmas rs5_nonempty = rs5_double [THEN length_21_nonempty] rs5_triple [THEN length_21_nonempty]
  rs5_half [THEN length_21_nonempty]



lemma flagged_example:
  "flagged_strengths cfg0 retreat_assets bench21 5 = [Fin (- (16024 / 1331)), Fin (- (34472 / 1331))]"
  by (simp add: flagged_strengths_alt flagged_item_def retreat_assets_def frames_not_empty
      current_rs_of_def to_scalar_def rs5_double rs5_triple rs5_half bench21_return5 cfg0_def
      fge_def rs5_nonempty)

theorem divergence_score_mean_witness:
  "DIVERGENCE_THRESHOLD cfg0 < 0
   \<and> flagged_strengths cfg0 retreat_assets bench21 5 = [Fin (- (16024 / 1331)), Fin (- (34472 / 1331))]
   \<and> divergence_detected (detect_divergence cfg0 retreat_assets bench21 (Some 5))
   \<and> divergence_score (detect_divergence cfg0 retreat_assets bench21 (Some 5)) = Fin (- (25248 / 1331))
   \<and> fle (Fin (- (25248 / 1331))) (Fin 0)"
proof -
  have t: "DIVERGENCE_THRESHOLD cfg0 < 0" by (simp add: cfg0_def)
  have w: "5 = (case Some 5 of None \<Rightarrow> RELATIVE_STRENGTH_WINDOW cfg0 | Some k \<Rightarrow> k)" by simp
  have m: "np_mean [Fin (- (16024 / 1331)), Fin (- (34472 / 1331))] = Fin (- (25248 / 1331))"
    by (simp add: np_mean_def fsum_def)
  from divergence_score_mean [OF t w flagged_example [symmetric] refl] t flagged_example m
  show ?thesis by simp
qed






end
